theory Spec2Isabelle
  imports Complex_Main
begin

section \<open>JavaScript strings\<close>

text \<open>
  A JavaScript string is a sequence of UTF-16 code units. A code unit is modelled as a
  natural number (below 65536 in a well-formed string); \<open>js\<close> turns an ASCII literal
  into its code units. Characters outside ASCII are written as their code units.
\<close>

type_synonym jsstring = "nat list"

definition js :: "string \<Rightarrow> jsstring" where
  "js s = map of_char s"

text \<open>
  \<open>String.prototype.trim\<close> removes the code units of WhiteSpace and LineTerminator
  from both ends: TAB, LF, VT, FF, CR, SP, NBSP, U+1680, U+2000 to U+200A, U+2028, U+2029,
  U+202F, U+205F, U+3000 and U+FEFF.
\<close>

definition isWhiteSpace :: "nat \<Rightarrow> bool" where
  "isWhiteSpace c \<longleftrightarrow>
     (9 \<le> c \<and> c \<le> 13) \<or> c = 32 \<or> c = 160 \<or> c = 5760 \<or> (8192 \<le> c \<and> c \<le> 8202) \<or>
     c = 8232 \<or> c = 8233 \<or> c = 8239 \<or> c = 8287 \<or> c = 12288 \<or> c = 65279"

definition trim :: "jsstring \<Rightarrow> jsstring" where
  "trim s = rev (dropWhile isWhiteSpace (rev (dropWhile isWhiteSpace s)))"

text \<open>\<open>s.startsWith(p)\<close> and \<open>s.includes(p)\<close>.\<close>

fun startsWith :: "jsstring \<Rightarrow> jsstring \<Rightarrow> bool" where
  "startsWith s [] = True"
| "startsWith [] (p # ps) = False"
| "startsWith (c # cs) (p # ps) = (c = p \<and> startsWith cs ps)"

fun includes_s :: "jsstring \<Rightarrow> jsstring \<Rightarrow> bool" where
  "includes_s [] p = (p = [])"
| "includes_s (c # cs) p = (startsWith (c # cs) p \<or> includes_s cs p)"

text \<open>
  \<open>s.split(sep)\<close> for a one-unit separator: the pieces between the separators, empty
  pieces kept, so the result is never empty (\<open>''''.split(' ')\<close> is \<open>['''']\<close>).
\<close>

fun split :: "nat \<Rightarrow> jsstring \<Rightarrow> jsstring list" where
  "split sep [] = [[]]"
| "split sep (c # cs) =
     (if c = sep then [] # split sep cs
      else (case split sep cs of [] \<Rightarrow> [[c]] | p # ps \<Rightarrow> (c # p) # ps))"

text \<open>\<open>xs.join(sep)\<close>.\<close>

fun join :: "jsstring \<Rightarrow> jsstring list \<Rightarrow> jsstring" where
  "join sep [] = []"
| "join sep [x] = x"
| "join sep (x # y # ys) = x @ sep @ join sep (y # ys)"

section \<open>The AI service (lib/tauri-api)\<close>

record Position =
  line :: int
  column :: int

datatype CompletionLevel = Line | Block | Component | Feature

text \<open>
  \<open>confidence\<close> is a JavaScript number; it is modelled as a real, which is exact for the
  comparisons with 0 and 1 made below.
\<close>

record CompletionResult =
  id_r :: jsstring
  level :: CompletionLevel
  confidence :: real
  code :: jsstring
  language :: jsstring
  alternatives :: "jsstring list"

record AIContext =
  project_path :: jsstring
  current_file :: "jsstring option"
  selected_text :: "jsstring option"
  cursor_position :: Position

record ProjectFile =
  path :: jsstring
  name :: jsstring
  file_type :: jsstring
  size_f :: int
  modified :: jsstring
  ai_relevance :: "real option"

record TerminalCommand =
  command :: jsstring
  args :: "jsstring list"
  working_dir :: jsstring

record TerminalResponse =
  success :: bool
  output_r :: jsstring
  error_r :: "jsstring option"
  suggestions :: "jsstring list"

text \<open>
  A settled promise is a sum: \<open>Inl e\<close> is a rejection with the error \<open>e\<close> (kept as the
  string that \<open>${error}\<close> renders), \<open>Inr v\<close> is fulfilment with \<open>v\<close>.

  The commands behind \<open>invoke\<close> run in the Tauri backend, which is not part of the
  front end; each one is a parameter giving the settled outcome of the call.
\<close>

type_synonym 'a settled = "jsstring + 'a"

record Backend =
  ai_complete_code :: "AIContext \<Rightarrow> CompletionLevel \<Rightarrow> CompletionResult settled"
  get_ai_suggested_files :: "jsstring \<Rightarrow> jsstring \<Rightarrow> ProjectFile list settled"
  execute_terminal_command :: "TerminalCommand \<Rightarrow> TerminalResponse settled"

subsection \<open>TauriAIService\<close>

definition TauriAIService_completeCode ::
  "Backend \<Rightarrow> AIContext \<Rightarrow> CompletionLevel \<Rightarrow> CompletionResult settled" where
  "TauriAIService_completeCode invoke context lvl = ai_complete_code invoke context lvl"

definition TauriAIService_getAISuggestedFiles ::
  "Backend \<Rightarrow> jsstring \<Rightarrow> jsstring \<Rightarrow> ProjectFile list settled" where
  "TauriAIService_getAISuggestedFiles invoke currentFile projectPath =
     get_ai_suggested_files invoke currentFile projectPath"

definition TauriAIService_executeTerminalCommand ::
  "Backend \<Rightarrow> TerminalCommand \<Rightarrow> TerminalResponse settled" where
  "TauriAIService_executeTerminalCommand invoke cmd = execute_terminal_command invoke cmd"

subsection \<open>MockAIService\<close>

definition mock_code :: jsstring where
  \<open>mock_code =
     js ''const Button = ({ children, variant = "primary", ...props }) => {'' @ [10] @
     js ''  return ('' @ [10] @
     js ''    <button '' @ [10] @
     js ''      className={`btn btn-${variant}`}'' @ [10] @
     js ''      {...props}'' @ [10] @
     js ''    >'' @ [10] @
     js ''      {children}'' @ [10] @
     js ''    </button>'' @ [10] @
     js ''  );'' @ [10] @
     js ''};''\<close>

definition MockAIService_completeCode ::
  "AIContext \<Rightarrow> CompletionLevel \<Rightarrow> CompletionResult settled" where
  "MockAIService_completeCode context lvl =
     Inr \<lparr> id_r = js ''1'',
           level = lvl,
           confidence = 0.92,
           code = mock_code,
           language = js ''typescript'',
           alternatives = [js ''Styled components variant'', js ''CSS modules variant''] \<rparr>"

definition MockAIService_getAISuggestedFiles ::
  "jsstring \<Rightarrow> jsstring \<Rightarrow> ProjectFile list settled" where
  "MockAIService_getAISuggestedFiles currentFile projectPath =
     Inr [\<lparr> path = js ''src/components/Button.tsx'',
            name = js ''Button.tsx'',
            file_type = js ''typescript'',
            size_f = 2048,
            modified = js ''2024-01-15T10:30:00Z'',
            ai_relevance = Some 0.95 \<rparr>]"

definition MockAIService_executeTerminalCommand ::
  "TerminalCommand \<Rightarrow> TerminalResponse settled" where
  "MockAIService_executeTerminalCommand cmd =
     Inr \<lparr> success = True,
           output_r = js ''Executed: '' @ command cmd @ js '' '' @ join (js '' '') (args cmd),
           error_r = None,
           suggestions = [js ''This is a simulated response''] \<rparr>"

subsection \<open>AIService: the service selected by the environment\<close>

text \<open>
  \<open>isTauri\<close> is \<open>typeof window !== 'undefined' && window.__TAURI__\<close>; it is a parameter.
\<close>

definition AIService_completeCode ::
  "bool \<Rightarrow> Backend \<Rightarrow> AIContext \<Rightarrow> CompletionLevel \<Rightarrow> CompletionResult settled" where
  "AIService_completeCode isTauri invoke context lvl =
     (if isTauri then TauriAIService_completeCode invoke context lvl
      else MockAIService_completeCode context lvl)"

definition AIService_getAISuggestedFiles ::
  "bool \<Rightarrow> Backend \<Rightarrow> jsstring \<Rightarrow> jsstring \<Rightarrow> ProjectFile list settled" where
  "AIService_getAISuggestedFiles isTauri invoke currentFile projectPath =
     (if isTauri then TauriAIService_getAISuggestedFiles invoke currentFile projectPath
      else MockAIService_getAISuggestedFiles currentFile projectPath)"

definition AIService_executeTerminalCommand ::
  "bool \<Rightarrow> Backend \<Rightarrow> TerminalCommand \<Rightarrow> TerminalResponse settled" where
  "AIService_executeTerminalCommand isTauri invoke cmd =
     (if isTauri then TauriAIService_executeTerminalCommand invoke cmd
      else MockAIService_executeTerminalCommand cmd)"

section \<open>The completion command of the backend\<close>

text \<open>
  The command \<open>ai_complete_code\<close> behind \<open>TauriAIService.completeCode\<close> is declared in
  the project's documents (\<open>async fn ai_complete_code(...) -> Result<CompletionResult,
  String>\<close>) and implemented nowhere in the sources. What it returns is described by the
  spec: the completion orchestrator asks the oracle, scores what the oracle produced, and
  delivers the candidate with that score.

  One run of the oracle yields a text with its alternatives, the likelihood the oracle
  reports when it reports one, the similarities of the context blocks that were used,
  whether the text parses again without syntax errors, and the truncation against the
  requested budget. The spec gives no weights for the blend: they are parameters.
\<close>

record Generation =
  gen_id :: jsstring
  gen_text :: jsstring
  gen_language :: jsstring
  gen_alternatives :: "jsstring list"
  reported_likelihood :: "real option"
  used_similarities :: "real list"
  reparses :: bool
  truncation :: real

record BlendWeights =
  similarity_weight :: real
  reparse_weight :: real
  truncation_penalty :: real

definition mean_r :: "real list \<Rightarrow> real" where
  "mean_r xs = (if xs = [] then 0 else sum_list xs / real (length xs))"

text \<open>
  Modelled from the spec: the heuristic blend of the confidence scoring is not among the
  sources. It combines the mean similarity of the context blocks actually used, whether
  the produced text re-parses without syntax errors, and a penalty proportional to the
  truncation against the requested budget.
\<close>

definition heuristic_blend :: "BlendWeights \<Rightarrow> Generation \<Rightarrow> real" where
  "heuristic_blend w g =
     similarity_weight w * mean_r (used_similarities g) +
     reparse_weight w * (if reparses g then 1 else 0) -
     truncation_penalty w * truncation g"

text \<open>
  Modelled from the spec: the clipping of the confidence scoring is not among the sources.
  The result is clipped to [0,1].
\<close>

definition clip_unit :: "real \<Rightarrow> real" where
  "clip_unit x = max 0 (min 1 x)"

text \<open>
  Modelled from the spec: the confidence scoring is not among the sources. It is the
  oracle's reported likelihood when available, otherwise the heuristic blend; the result
  is clipped to [0,1].
\<close>

definition confidence_score :: "BlendWeights \<Rightarrow> Generation \<Rightarrow> real" where
  "confidence_score w g =
     clip_unit (case reported_likelihood g of Some l \<Rightarrow> l | None \<Rightarrow> heuristic_blend w g)"

text \<open>
  Modelled from the spec: the command \<open>ai_complete_code\<close> is not among the sources. A
  failure of the oracle is returned as the failure of the command; otherwise the candidate
  carries the produced text, the requested level and the confidence score.
\<close>

definition engine_complete_code ::
  "BlendWeights \<Rightarrow> (AIContext \<Rightarrow> CompletionLevel \<Rightarrow> Generation settled) \<Rightarrow>
   AIContext \<Rightarrow> CompletionLevel \<Rightarrow> CompletionResult settled" where
  "engine_complete_code w oracle_run context lvl =
     (case oracle_run context lvl of
        Inl e \<Rightarrow> Inl e
      | Inr g \<Rightarrow>
          Inr \<lparr> id_r = gen_id g,
                level = lvl,
                confidence = confidence_score w g,
                code = gen_text g,
                language = gen_language g,
                alternatives = gen_alternatives g \<rparr>)"

text \<open>A backend whose completion command is the engine's.\<close>

definition engine_backend ::
  "BlendWeights \<Rightarrow> (AIContext \<Rightarrow> CompletionLevel \<Rightarrow> Generation settled) \<Rightarrow> Backend \<Rightarrow> Backend" where
  "engine_backend w oracle_run invoke = invoke\<lparr> ai_complete_code := engine_complete_code w oracle_run \<rparr>"

section \<open>CodeEditor (components/editor/CodeEditor)\<close>

text \<open>
  The component's state is its \<open>useState\<close> cells, together with what it does to the
  outside: the lines written with \<open>console.error\<close> (message and error) and the calls of
  \<open>AIService.completeCode\<close> whose promise has not settled yet, oldest first.
\<close>

record CodeEditor =
  showSuggestion :: bool
  currentSuggestion :: "CompletionResult option"
  isLoadingSuggestion :: bool
  code_s :: jsstring
  console_e :: "(jsstring \<times> jsstring) list"
  in_flight :: "(AIContext \<times> CompletionLevel) list"

definition initial_code :: jsstring where
  \<open>initial_code =
     js ''import React from 'react';'' @ [10] @
     [10] @
     js ''// ProjectCode - AI-Powered IDE'' @ [10] @
     js ''export default function App() {'' @ [10] @
     js ''  return ('' @ [10] @
     js ''    <div className="app">'' @ [10] @
     js ''      <h1>Welcome to ProjectCode</h1>'' @ [10] @
     js ''      <p>AI-powered development starts here...</p>'' @ [10] @
     js ''      '' @ [10] @
     js ''      {/* Try typing below - TabX will suggest completions */}'' @ [10] @
     js ''      const handleClick = () => {'' @ [10] @
     js ''        '' @ [10] @
     js ''      };'' @ [10] @
     js ''    </div>'' @ [10] @
     js ''  );'' @ [10] @
     js ''}''\<close>

definition CodeEditor_init :: CodeEditor where
  "CodeEditor_init =
     \<lparr> showSuggestion = False, currentSuggestion = None, isLoadingSuggestion = False,
       code_s = initial_code, console_e = [], in_flight = [] \<rparr>"

text \<open>The context that \<open>requestAICompletion\<close> builds; it does not depend on the state.\<close>

definition request_context :: AIContext where
  "request_context =
     \<lparr> project_path = js ''/current/project'',
       current_file = Some (js ''app.tsx''),
       selected_text = Some [],
       cursor_position = \<lparr> line = 10, column = 20 \<rparr> \<rparr>"

text \<open>
  \<open>requestAICompletion\<close> is an async function. Up to its \<open>await\<close> it sets the loading
  flag and calls \<open>AIService.completeCode(context, 'Component')\<close>; the rest runs when that
  promise settles. \<open>requestAICompletion_settle i r\<close> is the continuation of the \<open>i\<close>-th
  call in flight, settled with \<open>r\<close>: the \<open>try\<close> body stores and shows the result, the
  \<open>catch\<close> branch writes to the console, and \<open>finally\<close> clears the loading flag.
\<close>

definition requestAICompletion_begin :: "CodeEditor \<Rightarrow> CodeEditor" where
  "requestAICompletion_begin s =
     s\<lparr> isLoadingSuggestion := True,
        in_flight := in_flight s @ [(request_context, Component)] \<rparr>"

definition drop_nth :: "nat \<Rightarrow> 'a list \<Rightarrow> 'a list" where
  "drop_nth i xs = take i xs @ drop (Suc i) xs"

definition requestAICompletion_settle ::
  "nat \<Rightarrow> CompletionResult settled \<Rightarrow> CodeEditor \<Rightarrow> CodeEditor" where
  "requestAICompletion_settle i r s =
     (if i < length (in_flight s) then
        (case r of
           Inr result \<Rightarrow>
             s\<lparr> currentSuggestion := Some result,
                showSuggestion := True,
                isLoadingSuggestion := False,
                in_flight := drop_nth i (in_flight s) \<rparr>
         | Inl err \<Rightarrow>
             s\<lparr> console_e := console_e s @ [(js ''AI completion failed:'', err)],
                isLoadingSuggestion := False,
                in_flight := drop_nth i (in_flight s) \<rparr>)
      else s)"

text \<open>
  The whole of \<open>requestAICompletion\<close> against a service \<open>svc\<close> whose promise settles: the
  call made by the first part is the last one in flight.
\<close>

definition requestAICompletion ::
  "(AIContext \<Rightarrow> CompletionLevel \<Rightarrow> CompletionResult settled) \<Rightarrow> CodeEditor \<Rightarrow> CodeEditor" where
  "requestAICompletion svc s =
     requestAICompletion_settle (length (in_flight s)) (svc request_context Component)
       (requestAICompletion_begin s)"

definition acceptSuggestion :: "CodeEditor \<Rightarrow> CodeEditor" where
  "acceptSuggestion s =
     (case currentSuggestion s of
        Some cur \<Rightarrow>
          s\<lparr> code_s := code_s s @ [10, 10] @ js ''// AI Generated:'' @ [10] @ code cur,
             showSuggestion := False,
             currentSuggestion := None \<rparr>
      | None \<Rightarrow> s\<lparr> showSuggestion := False, currentSuggestion := None \<rparr>)"

definition rejectSuggestion :: "CodeEditor \<Rightarrow> CodeEditor" where
  "rejectSuggestion s = s\<lparr> showSuggestion := False, currentSuggestion := None \<rparr>"

text \<open>The editor's \<open>onChange\<close>: \<open>setCode(value || "")\<close>, where \<open>value\<close> may be undefined.\<close>

definition onChange :: "jsstring option \<Rightarrow> CodeEditor \<Rightarrow> CodeEditor" where
  "onChange v s = s\<lparr> code_s := (case v of None \<Rightarrow> [] | Some t \<Rightarrow> t) \<rparr>"

text \<open>
  The callback of the two-second timer of the \<open>useEffect\<close>. The effect depends on
  \<open>code\<close>, \<open>showSuggestion\<close> and \<open>isLoadingSuggestion\<close> and clears its timer when one
  of them changes, so the callback that fires reads the current values of the three.
\<close>

definition autoCompletionTimer :: "CodeEditor \<Rightarrow> CodeEditor" where
  "autoCompletionTimer s =
     (if includes_s (code_s s) (js ''const '') \<and> \<not> showSuggestion s \<and> \<not> isLoadingSuggestion s
      then requestAICompletion_begin s
      else s)"

text \<open>
  The states the mounted component can be in: \<open>requestAICompletion\<close> is called by the
  timer callback only, a promise in flight may settle either way at any time, and the
  user may edit, accept or reject.
\<close>

inductive reachable :: "CodeEditor \<Rightarrow> bool" where
  r_init: "reachable CodeEditor_init"
| r_timer: "reachable s \<Longrightarrow> reachable (autoCompletionTimer s)"
| r_settle: "reachable s \<Longrightarrow> reachable (requestAICompletion_settle i r s)"
| r_change: "reachable s \<Longrightarrow> reachable (onChange v s)"
| r_accept: "reachable s \<Longrightarrow> reachable (acceptSuggestion s)"
| r_reject: "reachable s \<Longrightarrow> reachable (rejectSuggestion s)"

section \<open>Terminal (components/terminal/Terminal)\<close>

datatype LineType = CommandLine | OutputLine | ErrorLine | SuggestionLine

text \<open>\<open>timestamp\<close> is \<open>new Date()\<close>: the reading of the clock, a parameter of each step.\<close>

record TerminalLine =
  type_l :: LineType
  content :: jsstring
  timestamp :: "nat option"

text \<open>
  The state of the component: its \<open>useState\<close> cells, the calls of
  \<open>AIService.executeTerminalCommand\<close> whose promise has not settled (the version that
  talks to the AI service), and the commands whose \<open>setTimeout\<close> callback has not run
  (the earlier version, which simulates the answer).

  \<open>history\<close> is the value of the state cell, with every update made so far applied in
  order. \<open>history_rendered\<close> is the value the last render read: it is what the name
  \<open>history\<close> means inside the handlers of that render. A promise or a timer updates the
  cell outside an input event, and React renders again only later, so the two can differ
  when the next handler runs. \<open>currentCommand\<close> is updated by input handlers only, and
  React renders after each of them before the next event, so its handlers read the
  current value.
\<close>

record Terminal =
  history :: "TerminalLine list"
  history_rendered :: "TerminalLine list"
  currentCommand :: jsstring
  isThinking :: bool
  calls :: "TerminalCommand list"
  timers :: "jsstring list"

definition initialHistory :: "nat \<Rightarrow> TerminalLine list" where
  \<open>initialHistory t0 =
     [\<lparr> type_l = OutputLine, content = js ''ProjectCode AI Terminal v1.0.0'', timestamp = Some t0 \<rparr>,
      \<lparr> type_l = OutputLine,
        content = js ''AI assistance enabled. Type commands or ask questions.'',
        timestamp = Some t0 \<rparr>,
      \<lparr> type_l = CommandLine, content = js ''npm run dev'', timestamp = Some t0 \<rparr>,
      \<lparr> type_l = OutputLine, content = [10003] @ js '' Ready in 2.3s'', timestamp = Some t0 \<rparr>,
      \<lparr> type_l = SuggestionLine,
        content = [55357, 56481] @
          js '' AI suggests: Try 'npm run build' to check for production errors'',
        timestamp = Some t0 \<rparr>]\<close>

definition Terminal_init :: "nat \<Rightarrow> Terminal" where
  "Terminal_init t0 =
     \<lparr> history = initialHistory t0, history_rendered = initialHistory t0,
       currentCommand = [], isThinking = False, calls = [], timers = [] \<rparr>"

text \<open>A render of the component reads the state cell.\<close>

definition render_terminal :: "Terminal \<Rightarrow> Terminal" where
  "render_terminal s = s\<lparr> history_rendered := history s \<rparr>"

text \<open>The input's \<open>onChange\<close>.\<close>

definition setCurrentCommand :: "jsstring \<Rightarrow> Terminal \<Rightarrow> Terminal" where
  "setCurrentCommand v s = s\<lparr> currentCommand := v \<rparr>"

text \<open>
  \<open>executeCommand\<close> of Terminal.tsx, up to its \<open>await\<close>. \<open>!command.trim()\<close> holds when
  the trimmed command is the empty string. \<open>setHistory(newHistory)\<close> sets the cell to
  the history the render read, followed by the command: it is not an update of the previous
  value. \<open>split\<close> never returns the empty list, so \<open>[0]\<close> is its head.
\<close>

definition executeCommand :: "nat \<Rightarrow> jsstring \<Rightarrow> Terminal \<Rightarrow> Terminal" where
  "executeCommand now cmd s =
     (if trim cmd = [] then s
      else
        s\<lparr> history := history_rendered s @
             [\<lparr> type_l = CommandLine, content = cmd, timestamp = Some now \<rparr>],
           currentCommand := [],
           isThinking := True,
           calls := calls s @
             [\<lparr> command = hd (split 32 cmd),
                args = tl (split 32 cmd),
                working_dir = js ''/current/project'' \<rparr>] \<rparr>)"

text \<open>
  The rest of \<open>executeCommand\<close>, run when the \<open>i\<close>-th call in flight settles with \<open>r\<close>.
  Here the history is updated from its previous value (\<open>setHistory(prev => ...)\<close>).
  \<open>if (response.error)\<close> holds for a defined, non-empty error string.
\<close>

definition response_lines :: "nat \<Rightarrow> TerminalResponse \<Rightarrow> TerminalLine list" where
  "response_lines now response =
     [\<lparr> type_l = OutputLine, content = output_r response, timestamp = Some now \<rparr>] @
     (case error_r response of
        None \<Rightarrow> []
      | Some e \<Rightarrow>
          if e = [] then [] else [\<lparr> type_l = ErrorLine, content = e, timestamp = Some now \<rparr>]) @
     map (\<lambda>suggestion.
            \<lparr> type_l = SuggestionLine,
              content = [55357, 56481] @ js '' AI suggests: '' @ suggestion,
              timestamp = Some now \<rparr>)
         (suggestions response)"

definition executeCommand_settle ::
  "nat \<Rightarrow> nat \<Rightarrow> TerminalResponse settled \<Rightarrow> Terminal \<Rightarrow> Terminal" where
  "executeCommand_settle now i r s =
     (if i < length (calls s) then
        (case r of
           Inr response \<Rightarrow>
             s\<lparr> history := history s @ response_lines now response,
                isThinking := False,
                calls := drop_nth i (calls s) \<rparr>
         | Inl err \<Rightarrow>
             s\<lparr> history := history s @
                  [\<lparr> type_l = ErrorLine,
                     content = js ''Error executing command: '' @ err,
                     timestamp = Some now \<rparr>],
                isThinking := False,
                calls := drop_nth i (calls s) \<rparr>)
      else s)"

subsection \<open>The earlier Terminal, with a simulated answer\<close>

text \<open>
  \<open>toLowerCase\<close> follows the Unicode case mapping, which is not part of the program; it
  is the parameter \<open>lower\<close>.
\<close>

definition getAIResponse :: "(jsstring \<Rightarrow> jsstring) \<Rightarrow> nat \<Rightarrow> jsstring \<Rightarrow> TerminalLine list" where
  \<open>getAIResponse lower now cmd0 =
     (let cmd = trim (lower cmd0);
          ln = (\<lambda>t c. \<lparr> type_l = t, content = c, timestamp = Some now \<rparr>)
      in
      if includes_s cmd (js ''install'') \<or> includes_s cmd (js ''npm i'') then
        [ln OutputLine ([55357, 56550] @ js '' Installing dependencies...''),
         ln OutputLine ([10003] @ js '' Dependencies installed successfully''),
         ln SuggestionLine ([55357, 56481] @
           js '' AI suggests: Run 'npm audit' to check for security vulnerabilities'')]
      else if includes_s cmd (js ''build'') then
        [ln OutputLine ([55357, 56616] @ js '' Building application...''),
         ln OutputLine ([10003] @ js '' Build completed in 12.3s''),
         ln SuggestionLine ([55357, 56481] @
           js '' AI suggests: Your bundle size increased by 15%. Consider code splitting.'')]
      else if includes_s cmd (js ''test'') then
        [ln OutputLine ([55358, 56810] @ js '' Running tests...''),
         ln OutputLine ([10003] @ js '' 24 tests passed''),
         ln ErrorLine ([9888] @ js '' 2 tests have low coverage''),
         ln SuggestionLine ([55357, 56481] @
           js '' AI suggests: Add tests for components/Button.tsx'')]
      else if includes_s cmd (js ''git'') \<and> includes_s cmd (js ''commit'') then
        [ln OutputLine ([55357, 56541] @ js '' Committing changes...''),
         ln OutputLine ([10003] @ js '' Committed: feat: add AI-powered terminal interface''),
         ln SuggestionLine ([55357, 56481] @
           js '' AI suggests: Consider adding a pre-commit hook for linting'')]
      else if \<not> startsWith cmd (js ''npm'') \<and> \<not> startsWith cmd (js ''git'') \<and>
              \<not> startsWith cmd (js ''yarn'') then
        [ln OutputLine ([55358, 56598] @ js '' AI is analyzing your request...''),
         ln OutputLine (js ''I understand you want help with: '' @ cmd0),
         ln SuggestionLine ([55357, 56481] @
           js '' Try: 'npm run dev' to start the development server'')]
      else
        [ln OutputLine (js ''Command executed: '' @ cmd0),
         ln SuggestionLine ([55357, 56481] @
           js '' AI suggests: Use 'help' to see available commands'')])\<close>

text \<open>
  \<open>executeCommand\<close> of the earlier version up to \<open>setTimeout\<close>, which sets the history
  from the value the render read, and the timer's callback for the \<open>i\<close>-th pending
  command, which updates the history from its previous value.
\<close>

definition executeCommand_sim :: "nat \<Rightarrow> jsstring \<Rightarrow> Terminal \<Rightarrow> Terminal" where
  "executeCommand_sim now cmd s =
     (if trim cmd = [] then s
      else
        s\<lparr> history := history_rendered s @
             [\<lparr> type_l = CommandLine, content = cmd, timestamp = Some now \<rparr>],
           currentCommand := [],
           isThinking := True,
           timers := timers s @ [cmd] \<rparr>)"

definition executeCommand_sim_timeout ::
  "(jsstring \<Rightarrow> jsstring) \<Rightarrow> nat \<Rightarrow> nat \<Rightarrow> Terminal \<Rightarrow> Terminal" where
  "executeCommand_sim_timeout lower now i s =
     (if i < length (timers s) then
        s\<lparr> history := history s @ getAIResponse lower now (timers s ! i),
           isThinking := False,
           timers := drop_nth i (timers s) \<rparr>
      else s)"

text \<open>
  What can happen to a mounted terminal, in either version: the user types, presses Enter
  (\<open>handleKeyPress\<close> runs \<open>executeCommand(currentCommand)\<close>), a call in flight settles, a
  pending timer fires, React renders the component.
\<close>

datatype TerminalEvent =
    Typed jsstring
  | Rendered
  | Enter nat
  | Settled nat nat "TerminalResponse settled"
  | EnterSim nat
  | TimedOut nat nat

fun terminal_step :: "(jsstring \<Rightarrow> jsstring) \<Rightarrow> TerminalEvent \<Rightarrow> Terminal \<Rightarrow> Terminal" where
  "terminal_step lower (Typed v) s = setCurrentCommand v s"
| "terminal_step lower Rendered s = render_terminal s"
| "terminal_step lower (Enter now) s = executeCommand now (currentCommand s) s"
| "terminal_step lower (Settled now i r) s = executeCommand_settle now i r s"
| "terminal_step lower (EnterSim now) s = executeCommand_sim now (currentCommand s) s"
| "terminal_step lower (TimedOut now i) s = executeCommand_sim_timeout lower now i s"

fun terminal_run :: "(jsstring \<Rightarrow> jsstring) \<Rightarrow> TerminalEvent list \<Rightarrow> Terminal \<Rightarrow> Terminal" where
  "terminal_run lower [] s = s"
| "terminal_run lower (e # es) s = terminal_run lower es (terminal_step lower e s)"

section \<open>Sidebar (components/layout/Sidebar)\<close>

datatype Role = User | Assistant

record ChatMessage =
  role :: Role
  content_m :: jsstring

text \<open>
  The state of the component: its \<open>useState\<close> cells (\<open>expandedFolders\<close> is a Set of
  names), the console, the number of \<open>setTimeout\<close> callbacks of \<open>sendMessage\<close> that have
  not run, and the calls of \<open>AIService.getAISuggestedFiles\<close> that have not settled.

  \<open>messages\<close> is the value of the state cell, with every update made so far applied in
  order; \<open>messages_rendered\<close> is the value the last render read, which is what the name
  \<open>messages\<close> means inside the handlers of that render. A timer updates the cell outside
  an input event, so the two can differ when the next handler runs. \<open>chatInput\<close> is
  updated by input handlers only, and React renders after each of them before the next
  event, so its handlers read the current value.
\<close>

record Sidebar =
  chatInput :: jsstring
  expandedFolders :: "jsstring set"
  messages :: "ChatMessage list"
  messages_rendered :: "ChatMessage list"
  suggestedFiles :: "ProjectFile list"
  isLoadingSuggestions :: bool
  console_s :: "(jsstring \<times> jsstring) list"
  reply_timers :: nat
  suggestion_calls :: "(jsstring \<times> jsstring) list"

definition chatHistory :: "ChatMessage list" where
  "chatHistory =
     [\<lparr> role = User, content_m = js ''How do I implement AI autocomplete?'' \<rparr>,
      \<lparr> role = Assistant,
        content_m = js ''I can help you implement TabX autocomplete. Let me show you the pattern...'' \<rparr>]"

definition Sidebar_init :: Sidebar where
  "Sidebar_init =
     \<lparr> chatInput = [], expandedFolders = {js ''src''}, messages = chatHistory,
       messages_rendered = chatHistory, suggestedFiles = [], isLoadingSuggestions = False, console_s = [],
       reply_timers = 0, suggestion_calls = [] \<rparr>"

definition assistant_reply :: ChatMessage where
  "assistant_reply =
     \<lparr> role = Assistant,
       content_m = js ''I understand your request. Let me help you with that...'' \<rparr>"

text \<open>A render of the component reads the state cell.\<close>

definition render_sidebar :: "Sidebar \<Rightarrow> Sidebar" where
  "render_sidebar s = s\<lparr> messages_rendered := messages s \<rparr>"

text \<open>
  \<open>sendMessage\<close>, which sets the messages to those the render read followed by the
  user's message (\<open>setMessages(newMessages)\<close>), and the callback of its one-second
  timer, which updates the messages from their previous value.
\<close>

definition sendMessage :: "Sidebar \<Rightarrow> Sidebar" where
  "sendMessage s =
     (if trim (chatInput s) = [] then s
      else
        s\<lparr> messages := messages_rendered s @ [\<lparr> role = User, content_m = chatInput s \<rparr>],
           chatInput := [],
           reply_timers := Suc (reply_timers s) \<rparr>)"

definition sendMessage_timeout :: "Sidebar \<Rightarrow> Sidebar" where
  "sendMessage_timeout s =
     (if 0 < reply_timers s then
        s\<lparr> messages := messages s @ [assistant_reply],
           reply_timers := reply_timers s - 1 \<rparr>
      else s)"

text \<open>\<open>sendMessage\<close> of the earlier version, which appends the reply at once.\<close>

definition sendMessage_sync :: "Sidebar \<Rightarrow> Sidebar" where
  "sendMessage_sync s =
     (if trim (chatInput s) = [] then s
      else
        s\<lparr> messages := messages_rendered s @
             [\<lparr> role = User, content_m = chatInput s \<rparr>, assistant_reply],
           chatInput := [] \<rparr>)"

text \<open>
  \<open>loadSuggestions\<close>, run once by the mount effect: up to its \<open>await\<close>, and its
  continuation when the \<open>i\<close>-th call in flight settles with \<open>r\<close>.
\<close>

definition fallback_files :: "ProjectFile list" where
  "fallback_files =
     [\<lparr> path = js ''src/components/Button.tsx'', name = js ''Button.tsx'',
        file_type = js ''typescript'', size_f = 2048,
        modified = js ''2024-01-15T10:30:00Z'', ai_relevance = Some 0.95 \<rparr>,
      \<lparr> path = js ''src/utils/helpers.ts'', name = js ''helpers.ts'',
        file_type = js ''typescript'', size_f = 1024,
        modified = js ''2024-01-14T15:20:00Z'', ai_relevance = Some 0.80 \<rparr>,
      \<lparr> path = js ''src/styles/globals.css'', name = js ''globals.css'',
        file_type = js ''css'', size_f = 4096,
        modified = js ''2024-01-13T09:15:00Z'', ai_relevance = Some 0.60 \<rparr>]"

definition loadSuggestions_begin :: "Sidebar \<Rightarrow> Sidebar" where
  "loadSuggestions_begin s =
     s\<lparr> isLoadingSuggestions := True,
        suggestion_calls := suggestion_calls s @ [(js ''app.tsx'', js ''/current/project'')] \<rparr>"

definition loadSuggestions_settle :: "nat \<Rightarrow> ProjectFile list settled \<Rightarrow> Sidebar \<Rightarrow> Sidebar" where
  "loadSuggestions_settle i r s =
     (if i < length (suggestion_calls s) then
        (case r of
           Inr suggestions' \<Rightarrow>
             s\<lparr> suggestedFiles := suggestions',
                isLoadingSuggestions := False,
                suggestion_calls := drop_nth i (suggestion_calls s) \<rparr>
         | Inl err \<Rightarrow>
             s\<lparr> console_s := console_s s @ [(js ''Failed to load AI suggestions:'', err)],
                suggestedFiles := fallback_files,
                isLoadingSuggestions := False,
                suggestion_calls := drop_nth i (suggestion_calls s) \<rparr>)
      else s)"

text \<open>The whole of \<open>loadSuggestions\<close> against a service \<open>svc\<close> whose promise settles.\<close>

definition loadSuggestions ::
  "(jsstring \<Rightarrow> jsstring \<Rightarrow> ProjectFile list settled) \<Rightarrow> Sidebar \<Rightarrow> Sidebar" where
  "loadSuggestions svc s =
     loadSuggestions_settle (length (suggestion_calls s))
       (svc (js ''app.tsx'') (js ''/current/project'')) (loadSuggestions_begin s)"

section \<open>Vector store and index\<close>

text \<open>
  The front end reaches the code index through \<open>invoke('search_code_semantic', ...)\<close>
  only. The store is described by the table \<open>code_embeddings\<close> (\<open>id\<close> is its primary
  key) and the queries of the project's documents; a row carries the block's id, its file
  and lines, its kind, its language, its text, its embedding and its dependencies. The
  store is the list of its live rows, oldest first.
  \<open>array_cosine_similarity\<close> is a function of the database; it is the parameter \<open>sim\<close>.
\<close>

record CodeEmbedding =
  id_e :: jsstring
  file_path :: jsstring
  start_line :: int
  end_line :: int
  code_type :: jsstring
  language_e :: jsstring
  content_e :: jsstring
  embedding :: "real list"
  dependencies :: "jsstring list"

type_synonym similarity = "real list \<Rightarrow> real list \<Rightarrow> real"

text \<open>
  \<open>ORDER BY similarity DESC\<close>: a stable sort on the negated similarity (SQL leaves the
  order of equal rows open; the first inserted comes first here).
\<close>

definition order_by_similarity_desc :: "('a \<times> real) list \<Rightarrow> ('a \<times> real) list" where
  "order_by_similarity_desc rows = sort_key (\<lambda>row. - snd row) rows"

text \<open>
  The core embedding query: \<open>SELECT ... array_cosine_similarity(embedding, ?1) as
  similarity FROM code_embeddings WHERE similarity > 0.6 ORDER BY similarity DESC LIMIT 10\<close>.
\<close>

definition core_embedding_query ::
  "similarity \<Rightarrow> CodeEmbedding list \<Rightarrow> real list \<Rightarrow> (CodeEmbedding \<times> real) list" where
  "core_embedding_query sim code_embeddings q =
     take 10 (order_by_similarity_desc
       (filter (\<lambda>row. snd row > 0.6)
          (map (\<lambda>e. (e, sim (embedding e) q)) code_embeddings)))"

text \<open>
  Modelled from the spec: \<open>remove(blockId)\<close> of the Vector Store is not among the
  sources (only the table and the SQL queries are). After it the id has no live entry.
\<close>

definition remove :: "jsstring \<Rightarrow> CodeEmbedding list \<Rightarrow> CodeEmbedding list" where
  "remove blockId store = filter (\<lambda>e. id_e e \<noteq> blockId) store"

text \<open>
  Modelled from the spec: \<open>upsert(blockId, vector, metadata)\<close> of the Vector Store is not
  among the sources. No two live entries share a block id: the stale entry is removed
  before the new one is inserted (the documents store a row with \<open>INSERT OR REPLACE\<close> on
  the primary key).
\<close>

definition upsert :: "CodeEmbedding \<Rightarrow> CodeEmbedding list \<Rightarrow> CodeEmbedding list" where
  "upsert e store = remove (id_e e) store @ [e]"

text \<open>
  Modelled from the spec: \<open>query(vector, k, filter) -> [(blockId, similarity)]\<close> of the
  Vector Store is not among the sources. It returns the \<open>k\<close> best live entries that pass
  the filter, ordered by descending similarity.
\<close>

definition query ::
  "similarity \<Rightarrow> CodeEmbedding list \<Rightarrow> real list \<Rightarrow> nat \<Rightarrow> (CodeEmbedding \<Rightarrow> bool) \<Rightarrow>
   (jsstring \<times> real) list" where
  "query sim store q k flt =
     take k (order_by_similarity_desc
       (map (\<lambda>e. (id_e e, sim (embedding e) q)) (filter flt store)))"

subsection \<open>Indexing a file\<close>

text \<open>
  The indexing pass (Parser Adapter, Embedding Generator, Vector Store upsert) is not
  among the sources; the documents give only the outline of \<open>CodeIndexer.updateIndex\<close>:
  remove the file from the index, then index the file, embedding and storing each of its
  blocks. The data are those of the spec: a semantic block has a kind, a byte range, a
  line range, its raw text and the symbols it imports. The parser, the language tag of a
  file, the embedding model and the hash that names a block are collaborators, given as
  functions, so that the same input gives the same output.
\<close>

datatype BlockKind = Function | Method | Class | Module | Import | Other

record SemanticBlock =
  kind :: BlockKind
  byte_range :: "nat \<times> nat"
  line_range :: "int \<times> int"
  raw_text :: jsstring
  imports_b :: "jsstring list"

record CodeIndexer =
  parse :: "jsstring \<Rightarrow> jsstring \<Rightarrow> SemanticBlock list"
  language_tag :: "jsstring \<Rightarrow> jsstring"
  embed :: "jsstring \<Rightarrow> real list"
  hash :: "jsstring \<Rightarrow> nat \<times> nat \<Rightarrow> jsstring \<Rightarrow> jsstring"

definition kind_name :: "BlockKind \<Rightarrow> jsstring" where
  "kind_name k =
     (case k of Function \<Rightarrow> js ''function'' | Method \<Rightarrow> js ''method'' | Class \<Rightarrow> js ''class''
      | Module \<Rightarrow> js ''module'' | Import \<Rightarrow> js ''import'' | Other \<Rightarrow> js ''other'')"

text \<open>
  Modelled from the spec: the index entry of a block is not built anywhere in the sources.
  Its id is the content-addressed id of the spec, the hash of the file path, the byte
  range and the text; its vector is the embedding of the text.
\<close>

definition block_entry :: "CodeIndexer \<Rightarrow> jsstring \<Rightarrow> SemanticBlock \<Rightarrow> CodeEmbedding" where
  "block_entry ix p b =
     \<lparr> id_e = hash ix p (byte_range b) (raw_text b),
       file_path = p,
       start_line = fst (line_range b),
       end_line = snd (line_range b),
       code_type = kind_name (kind b),
       language_e = language_tag ix p,
       content_e = raw_text b,
       embedding = embed ix (raw_text b),
       dependencies = imports_b b \<rparr>"

text \<open>
  Modelled from the spec: \<open>removeFileFromIndex\<close> is called by \<open>updateIndex\<close> in the
  documents and defined nowhere. It removes the entries of the file's blocks.
\<close>

definition removeFileFromIndex :: "jsstring \<Rightarrow> CodeEmbedding list \<Rightarrow> CodeEmbedding list" where
  "removeFileFromIndex p store = filter (\<lambda>e. file_path e \<noteq> p) store"

text \<open>
  Modelled from the spec: \<open>indexFile\<close> is called by \<open>updateIndex\<close> in the documents and
  defined nowhere. It parses the file into blocks and upserts the entry of each block, in
  the parser's order.
\<close>

definition indexFile ::
  "CodeIndexer \<Rightarrow> jsstring \<Rightarrow> jsstring \<Rightarrow> CodeEmbedding list \<Rightarrow> CodeEmbedding list" where
  "indexFile ix p text store =
     foldl (\<lambda>st b. upsert (block_entry ix p b) st) store (parse ix p text)"

text \<open>
  Modelled from the spec: re-indexing a file, after the outline of \<open>updateIndex\<close> in the
  documents (the body of its loop over the changed files): the file's old entries are
  removed, then the file is indexed.
\<close>

definition updateIndex ::
  "CodeIndexer \<Rightarrow> jsstring \<Rightarrow> jsstring \<Rightarrow> CodeEmbedding list \<Rightarrow> CodeEmbedding list" where
  "updateIndex ix p text store = indexFile ix p text (removeFileFromIndex p store)"

text \<open>The loop of \<open>indexFile\<close> over entries already built; it is used in the proofs.\<close>

definition index_all :: "CodeEmbedding list \<Rightarrow> CodeEmbedding list \<Rightarrow> CodeEmbedding list" where
  "index_all es store = foldl (\<lambda>st e. upsert e st) store es"

section \<open>Inputs used in the examples\<close>

text \<open>
  A backend whose completion command answers with a confidence of 1.5, and a backend none
  of whose commands is available.
\<close>

definition overconfident_result :: CompletionResult where
  "overconfident_result =
     \<lparr> id_r = js ''7'', level = Component, confidence = 1.5, code = js ''x'',
       language = js ''typescript'', alternatives = [] \<rparr>"

definition overconfident_backend :: Backend where
  "overconfident_backend =
     \<lparr> ai_complete_code = (\<lambda>context lvl. Inr overconfident_result),
       get_ai_suggested_files = (\<lambda>currentFile projectPath. Inl (js ''unavailable'')),
       execute_terminal_command = (\<lambda>cmd. Inl (js ''unavailable'')) \<rparr>"

definition unavailable_backend :: Backend where
  "unavailable_backend =
     \<lparr> ai_complete_code = (\<lambda>context lvl. Inl (js ''unavailable'')),
       get_ai_suggested_files = (\<lambda>currentFile projectPath. Inl (js ''unavailable'')),
       execute_terminal_command = (\<lambda>cmd. Inl (js ''unavailable'')) \<rparr>"

text \<open>
  An oracle that reports a likelihood of 1.7, a run of the oracle that reports none, and
  weights for the blend.
\<close>

definition overrated_generation :: Generation where
  "overrated_generation =
     \<lparr> gen_id = js ''3'', gen_text = js ''b;'', gen_language = js ''typescript'',
       gen_alternatives = [], reported_likelihood = Some 1.7, used_similarities = [],
       reparses = True, truncation = 0 \<rparr>"

definition overrating_oracle :: "AIContext \<Rightarrow> CompletionLevel \<Rightarrow> Generation settled" where
  "overrating_oracle context lvl = Inr overrated_generation"

definition unrated_generation :: Generation where
  "unrated_generation =
     \<lparr> gen_id = js ''4'', gen_text = js ''b;'', gen_language = js ''typescript'',
       gen_alternatives = [], reported_likelihood = None, used_similarities = [0.9, 0.7],
       reparses = True, truncation = 0.25 \<rparr>"

definition example_weights :: BlendWeights where
  "example_weights = \<lparr> similarity_weight = 0.5, reparse_weight = 0.5, truncation_penalty = 0.4 \<rparr>"

text \<open>An answer of the backend to a completion request, and an edit of the code.\<close>

definition example_result :: CompletionResult where
  "example_result =
     \<lparr> id_r = js ''2'', level = Component, confidence = 0.8, code = js ''return 1;'',
       language = js ''typescript'', alternatives = [] \<rparr>"

definition edited_code :: jsstring where
  "edited_code = initial_code @ [10] @ js ''const total = 0;''"

text \<open>An answer of the backend to a terminal command.\<close>

definition example_response :: TerminalResponse where
  "example_response =
     \<lparr> success = True, output_r = js ''out'', error_r = None, suggestions = [] \<rparr>"

text \<open>
  A store of three blocks in two files, with the dot product for the similarity, and an
  indexer whose parser finds two blocks in every file.
\<close>

definition dot :: similarity where
  "dot a b = sum_list (map (\<lambda>(x, y). x * y) (zip a b))"

definition no_filter :: "CodeEmbedding \<Rightarrow> bool" where
  "no_filter e = True"

definition example_row :: "string \<Rightarrow> string \<Rightarrow> real list \<Rightarrow> CodeEmbedding" where
  "example_row n f v =
     \<lparr> id_e = js n, file_path = js f, start_line = 1, end_line = 2,
       code_type = js ''function'', language_e = js ''typescript'', content_e = [],
       embedding = v, dependencies = [] \<rparr>"

definition example_store :: "CodeEmbedding list" where
  "example_store =
     upsert (example_row ''c'' ''app.tsx'' [0.9, 0.1])
       (upsert (example_row ''b'' ''util.ts'' [0.2, 0.3])
          (upsert (example_row ''a'' ''app.tsx'' [0.7, 0]) []))"

definition example_blocks :: "SemanticBlock list" where
  "example_blocks =
     [\<lparr> kind = Function, byte_range = (0, 10), line_range = (1, 2), raw_text = js ''f'',
        imports_b = [] \<rparr>,
      \<lparr> kind = Class, byte_range = (11, 30), line_range = (3, 9), raw_text = js ''C'',
        imports_b = [js ''f''] \<rparr>]"

definition example_indexer :: CodeIndexer where
  "example_indexer =
     \<lparr> parse = (\<lambda>p text. example_blocks),
       language_tag = (\<lambda>p. js ''typescript''),
       embed = (\<lambda>text. [1, 0]),
       hash = (\<lambda>p r text. p @ js '':'' @ text) \<rparr>"

section \<open>Properties\<close>

subsection \<open>Evaluation of literals\<close>

lemma js_Nil [simp]: "js [] = []"
  by (simp add: js_def)

lemma js_Cons [simp]: "js (c # cs) = of_char c # js cs"
  by (simp add: js_def)

subsection \<open>Requesting a completion\<close>

lemma requestAICompletion_fulfilled:
  "svc request_context Component = Inr r \<Longrightarrow>
   requestAICompletion svc s =
     s\<lparr> currentSuggestion := Some r, showSuggestion := True, isLoadingSuggestion := False \<rparr>"
  by (simp add: requestAICompletion_def requestAICompletion_settle_def
      requestAICompletion_begin_def drop_nth_def)

lemma requestAICompletion_rejected:
  "svc request_context Component = Inl e \<Longrightarrow>
   requestAICompletion svc s =
     s\<lparr> console_e := console_e s @ [(js ''AI completion failed:'', e)],
        isLoadingSuggestion := False \<rparr>"
  by (simp add: requestAICompletion_def requestAICompletion_settle_def
      requestAICompletion_begin_def drop_nth_def)

lemma includes_initial: "includes_s initial_code (js ''const '')"
  by (simp add: initial_code_def)

lemma timer_init:
  "autoCompletionTimer CodeEditor_init =
     CodeEditor_init\<lparr> isLoadingSuggestion := True, in_flight := [(request_context, Component)] \<rparr>"
  using includes_initial
  by (simp add: autoCompletionTimer_def requestAICompletion_begin_def CodeEditor_init_def)

subsection \<open>Confidence of a delivered completion\<close>

lemma clip_unit_range: "0 \<le> clip_unit x \<and> clip_unit x \<le> 1"
  by (simp add: clip_unit_def)

lemma engine_confidence_range:
  "engine_complete_code w oracle_run context lvl = Inr r \<Longrightarrow> 0 \<le> confidence r \<and> confidence r \<le> 1"
  by (auto simp: engine_complete_code_def confidence_score_def clip_unit_range split: sum.splits)

lemma service_confidence_range:
  "AIService_completeCode isTauri (engine_backend w oracle_run invoke) context lvl = Inr r \<Longrightarrow>
   0 \<le> confidence r \<and> confidence r \<le> 1"
proof (cases isTauri)
  case True
  assume "AIService_completeCode isTauri (engine_backend w oracle_run invoke) context lvl = Inr r"
  with True have "engine_complete_code w oracle_run context lvl = Inr r"
    by (simp add: AIService_completeCode_def TauriAIService_completeCode_def engine_backend_def)
  then show ?thesis by (rule engine_confidence_range)
next
  case False
  assume "AIService_completeCode isTauri (engine_backend w oracle_run invoke) context lvl = Inr r"
  with False show ?thesis
    by (auto simp: AIService_completeCode_def MockAIService_completeCode_def)
qed

text \<open>
  C1: for every context and level, in either environment, a completion candidate that the
  service returns has a confidence in [0,1]: outside Tauri it is the mock's 0.92, under
  Tauri it is the score of the backend's command, which is clipped to [0,1] whatever the
  oracle reported and whatever the blend gave. \<open>requestAICompletion\<close> delivers the
  candidate unchanged, so the confidence of the suggestion it stores is in [0,1].
\<close>

theorem completion_confidence_in_unit_interval:
  "(AIService_completeCode isTauri (engine_backend w oracle_run invoke) context lvl = Inr r \<longrightarrow>
      0 \<le> confidence r \<and> confidence r \<le> 1) \<and>
   (AIService_completeCode isTauri (engine_backend w oracle_run invoke) request_context Component = Inr r' \<longrightarrow>
      currentSuggestion
        (requestAICompletion (AIService_completeCode isTauri (engine_backend w oracle_run invoke)) s)
        = Some r' \<and>
      0 \<le> confidence r' \<and> confidence r' \<le> 1)"
  using service_confidence_range [of isTauri w oracle_run invoke]
  by (simp add: requestAICompletion_fulfilled)

text \<open>
  The theorem under Tauri, at an oracle that reports a likelihood of 1.7 (the candidate
  is delivered with confidence 1), and outside Tauri (confidence 0.92); the blend at a
  run without a reported likelihood gives 0.8.
\<close>

theorem completion_confidence_in_unit_interval_witness:
  "confidence_score example_weights overrated_generation = 1 \<and>
   confidence_score example_weights unrated_generation = 0.8 \<and>
   map_option confidence
     (currentSuggestion
        (requestAICompletion
           (AIService_completeCode True (engine_backend example_weights overrating_oracle unavailable_backend))
           CodeEditor_init))
     = Some 1 \<and>
   map_option confidence
     (currentSuggestion
        (requestAICompletion
           (AIService_completeCode False (engine_backend example_weights overrating_oracle unavailable_backend))
           CodeEditor_init))
     = Some 0.92"
proof -
  have t: "AIService_completeCode True (engine_backend example_weights overrating_oracle unavailable_backend)
             request_context Component
           = Inr \<lparr> id_r = js ''3'', level = Component, confidence = 1, code = js ''b;'',
                   language = js ''typescript'', alternatives = [] \<rparr>"
    by (simp add: AIService_completeCode_def TauriAIService_completeCode_def engine_backend_def
        engine_complete_code_def overrating_oracle_def overrated_generation_def
        confidence_score_def clip_unit_def)
  have f: "AIService_completeCode False (engine_backend example_weights overrating_oracle unavailable_backend)
             request_context Component
           = Inr \<lparr> id_r = js ''1'', level = Component, confidence = 0.92, code = mock_code,
                   language = js ''typescript'',
                   alternatives = [js ''Styled components variant'', js ''CSS modules variant''] \<rparr>"
    by (simp add: AIService_completeCode_def MockAIService_completeCode_def)
  have c1: "confidence_score example_weights overrated_generation = 1"
    by (simp add: confidence_score_def clip_unit_def overrated_generation_def)
  have c2: "confidence_score example_weights unrated_generation = 0.8"
    by (simp add: confidence_score_def clip_unit_def unrated_generation_def heuristic_blend_def
        mean_r_def example_weights_def)
  show ?thesis
    using completion_confidence_in_unit_interval
        [of True example_weights overrating_oracle unavailable_backend request_context Component
            "\<lparr> id_r = js ''3'', level = Component, confidence = 1, code = js ''b;'',
               language = js ''typescript'', alternatives = [] \<rparr>"
            "\<lparr> id_r = js ''3'', level = Component, confidence = 1, code = js ''b;'',
               language = js ''typescript'', alternatives = [] \<rparr>"
            CodeEditor_init]
      completion_confidence_in_unit_interval
        [of False example_weights overrating_oracle unavailable_backend request_context Component
            "\<lparr> id_r = js ''1'', level = Component, confidence = 0.92, code = mock_code,
               language = js ''typescript'',
               alternatives = [js ''Styled components variant'', js ''CSS modules variant''] \<rparr>"
            "\<lparr> id_r = js ''1'', level = Component, confidence = 0.92, code = mock_code,
               language = js ''typescript'',
               alternatives = [js ''Styled components variant'', js ''CSS modules variant''] \<rparr>"
            CodeEditor_init]
      t f c1 c2
    by simp
qed

subsection \<open>Requests in flight\<close>

lemma timer_edit_timer:
  "autoCompletionTimer (onChange (Some edited_code) (autoCompletionTimer CodeEditor_init))
   = CodeEditor_init\<lparr> isLoadingSuggestion := True, in_flight := [(request_context, Component)],
                       code_s := edited_code \<rparr>"
  unfolding timer_init by (simp add: onChange_def autoCompletionTimer_def)

text \<open>
  C3, as stated, fails: nothing supersedes a pending request. The timer fires and the
  first request is in flight; the user edits the code, and the timer fires again while
  the first request is pending. The second request is dropped by the guard on the loading
  flag, the first one stays in flight, and when its result arrives it is stored and
  shown.
\<close>

theorem pending_request_not_superseded_counterexample:
  "reachable
     (requestAICompletion_settle 0 (Inr example_result)
        (autoCompletionTimer (onChange (Some edited_code) (autoCompletionTimer CodeEditor_init)))) \<and>
   in_flight (autoCompletionTimer CodeEditor_init) = [(request_context, Component)] \<and>
   includes_s edited_code (js ''const '') \<and>
   \<not> showSuggestion (onChange (Some edited_code) (autoCompletionTimer CodeEditor_init)) \<and>
   isLoadingSuggestion (onChange (Some edited_code) (autoCompletionTimer CodeEditor_init)) \<and>
   in_flight (autoCompletionTimer (onChange (Some edited_code) (autoCompletionTimer CodeEditor_init)))
     = [(request_context, Component)] \<and>
   currentSuggestion
     (requestAICompletion_settle 0 (Inr example_result)
        (autoCompletionTimer (onChange (Some edited_code) (autoCompletionTimer CodeEditor_init))))
     = Some example_result \<and>
   showSuggestion
     (requestAICompletion_settle 0 (Inr example_result)
        (autoCompletionTimer (onChange (Some edited_code) (autoCompletionTimer CodeEditor_init))))"
proof -
  have r: "reachable
     (requestAICompletion_settle 0 (Inr example_result)
        (autoCompletionTimer (onChange (Some edited_code) (autoCompletionTimer CodeEditor_init))))"
    by (intro r_settle r_timer r_change r_init)
  have i: "includes_s edited_code (js ''const '')"
    by (simp add: edited_code_def initial_code_def)
  have e: "onChange (Some edited_code) (autoCompletionTimer CodeEditor_init)
           = CodeEditor_init\<lparr> isLoadingSuggestion := True,
               in_flight := [(request_context, Component)], code_s := edited_code \<rparr>"
    unfolding timer_init by (simp add: onChange_def)
  have n: "\<not> showSuggestion (onChange (Some edited_code) (autoCompletionTimer CodeEditor_init))"
    unfolding e by (simp add: CodeEditor_init_def)
  have l: "isLoadingSuggestion (onChange (Some edited_code) (autoCompletionTimer CodeEditor_init))"
    unfolding e by simp
  show ?thesis
    using r i n l unfolding timer_edit_timer
    by (simp add: timer_init requestAICompletion_settle_def)
qed


text \<open>
  C3, amended: a firing of the editor's timer while a request is loading is dropped: it
  issues no call and does not supersede the pending request; and the result of a pending
  request, when it arrives, is never discarded: it becomes the current suggestion and is
  shown, and the request leaves the calls in flight.
\<close>

theorem pending_result_always_delivered:
  "(isLoadingSuggestion s \<longrightarrow> autoCompletionTimer s = s) \<and>
   (i < length (in_flight s) \<longrightarrow>
      currentSuggestion (requestAICompletion_settle i (Inr r) s) = Some r \<and>
      showSuggestion (requestAICompletion_settle i (Inr r) s) \<and>
      in_flight (requestAICompletion_settle i (Inr r) s) = drop_nth i (in_flight s))"
  by (simp add: autoCompletionTimer_def requestAICompletion_settle_def)

text \<open>
  The theorem at the state after the timer has fired once: the request is loading, a
  second firing changes nothing, and the result of the request is delivered.
\<close>

theorem pending_result_always_delivered_witness:
  "isLoadingSuggestion (autoCompletionTimer CodeEditor_init) \<and>
   autoCompletionTimer (autoCompletionTimer CodeEditor_init) = autoCompletionTimer CodeEditor_init \<and>
   0 < length (in_flight (autoCompletionTimer CodeEditor_init)) \<and>
   currentSuggestion
     (requestAICompletion_settle 0 (Inr example_result) (autoCompletionTimer CodeEditor_init))
     = Some example_result \<and>
   showSuggestion
     (requestAICompletion_settle 0 (Inr example_result) (autoCompletionTimer CodeEditor_init)) \<and>
   in_flight
     (requestAICompletion_settle 0 (Inr example_result) (autoCompletionTimer CodeEditor_init))
     = []"
  using pending_result_always_delivered
    [of "autoCompletionTimer CodeEditor_init" 0 example_result]
  unfolding timer_init
  by (simp add: drop_nth_def)




subsection \<open>Outcomes of a completion request\<close>

text \<open>
  C5, as stated, fails: outside Tauri the oracle is not available (here every command of
  the backend fails), and the request does not fail: \<open>AIService\<close> is the mock service,
  whose made-up candidate, with confidence 0.92, is stored and shown.
\<close>

theorem mock_answers_without_oracle_counterexample:
  "ai_complete_code unavailable_backend request_context Component = Inl (js ''unavailable'') \<and>
   AIService_completeCode False unavailable_backend request_context Component
     = MockAIService_completeCode request_context Component \<and>
   map_option confidence
     (currentSuggestion
        (requestAICompletion (AIService_completeCode False unavailable_backend) CodeEditor_init))
     = Some 0.92 \<and>
   showSuggestion
     (requestAICompletion (AIService_completeCode False unavailable_backend) CodeEditor_init)"
  by (simp add: unavailable_backend_def AIService_completeCode_def MockAIService_completeCode_def
      requestAICompletion_def requestAICompletion_settle_def requestAICompletion_begin_def
      CodeEditor_init_def drop_nth_def)

text \<open>
  C5, amended: under Tauri a completion request whose call settles ends in exactly one of
  two ways. If the backend answers, its result is stored and shown and nothing else
  changes but the loading flag; if the backend fails, the error is written to the console,
  the loading flag is cleared, and no candidate is stored or shown. Outside Tauri the
  mock service answers every request.
\<close>

theorem completion_request_outcomes:
  "(ai_complete_code invoke request_context Component = Inr r \<longrightarrow>
      requestAICompletion (AIService_completeCode True invoke) s =
        s\<lparr> currentSuggestion := Some r, showSuggestion := True, isLoadingSuggestion := False \<rparr>) \<and>
   (ai_complete_code invoke request_context Component = Inl e \<longrightarrow>
      requestAICompletion (AIService_completeCode True invoke) s =
        s\<lparr> console_e := console_e s @ [(js ''AI completion failed:'', e)],
           isLoadingSuggestion := False \<rparr>) \<and>
   (\<exists>m. AIService_completeCode False invoke context lvl = Inr m)"
  by (simp add: requestAICompletion_def requestAICompletion_settle_def requestAICompletion_begin_def
      AIService_completeCode_def TauriAIService_completeCode_def MockAIService_completeCode_def
      drop_nth_def)

text \<open>The theorem at a backend that answers and at a backend that fails.\<close>

theorem completion_request_outcomes_witness:
  "currentSuggestion
     (requestAICompletion (AIService_completeCode True overconfident_backend) CodeEditor_init)
     = Some overconfident_result \<and>
   showSuggestion
     (requestAICompletion (AIService_completeCode True overconfident_backend) CodeEditor_init) \<and>
   currentSuggestion
     (requestAICompletion (AIService_completeCode True unavailable_backend) CodeEditor_init)
     = None \<and>
   \<not> showSuggestion
     (requestAICompletion (AIService_completeCode True unavailable_backend) CodeEditor_init) \<and>
   console_e
     (requestAICompletion (AIService_completeCode True unavailable_backend) CodeEditor_init)
     = [(js ''AI completion failed:'', js ''unavailable'')]"
  using completion_request_outcomes
      [of overconfident_backend overconfident_result CodeEditor_init "js ''unavailable''"]
    completion_request_outcomes
      [of unavailable_backend overconfident_result CodeEditor_init "js ''unavailable''"]
  by (simp add: overconfident_backend_def unavailable_backend_def CodeEditor_init_def)

subsection \<open>Failures of the AI service\<close>

text \<open>
  C6, as stated, fails: when the query for the AI-suggested files fails, \<open>loadSuggestions\<close>
  shows a list of three made-up files, with relevances 0.95, 0.80 and 0.60, as if the
  query had answered.
\<close>

theorem suggestion_failure_replaced_by_mock_counterexample:
  "AIService_getAISuggestedFiles True unavailable_backend (js ''app.tsx'') (js ''/current/project'')
     = Inl (js ''unavailable'') \<and>
   suggestedFiles
     (loadSuggestions (AIService_getAISuggestedFiles True unavailable_backend) Sidebar_init)
     = fallback_files \<and>
   map name fallback_files = [js ''Button.tsx'', js ''helpers.ts'', js ''globals.css''] \<and>
   map ai_relevance fallback_files = [Some 0.95, Some 0.80, Some 0.60]"
  by (simp add: AIService_getAISuggestedFiles_def TauriAIService_getAISuggestedFiles_def
      unavailable_backend_def loadSuggestions_def loadSuggestions_settle_def
      loadSuggestions_begin_def Sidebar_init_def fallback_files_def drop_nth_def)

text \<open>
  C6, amended: when the query for the AI-suggested files fails, \<open>loadSuggestions\<close> writes
  the error to the console and shows its fixed fallback list in place of an answer; when
  the query answers, the answer is shown as it is. When a terminal command fails, the
  failure is surfaced: an error line with the error's text is appended to the history.
\<close>

theorem ai_failure_handling:
  "(svc (js ''app.tsx'') (js ''/current/project'') = Inl e \<longrightarrow>
      loadSuggestions svc sb =
        sb\<lparr> console_s := console_s sb @ [(js ''Failed to load AI suggestions:'', e)],
            suggestedFiles := fallback_files,
            isLoadingSuggestions := False \<rparr>) \<and>
   (svc (js ''app.tsx'') (js ''/current/project'') = Inr fs \<longrightarrow>
      loadSuggestions svc sb = sb\<lparr> suggestedFiles := fs, isLoadingSuggestions := False \<rparr>) \<and>
   (i < length (calls t) \<longrightarrow>
      history (executeCommand_settle now i (Inl e) t) =
        history t @ [\<lparr> type_l = ErrorLine, content = js ''Error executing command: '' @ e,
                        timestamp = Some now \<rparr>])"
  by (simp add: loadSuggestions_def loadSuggestions_settle_def loadSuggestions_begin_def
      executeCommand_settle_def drop_nth_def)

text \<open>
  The theorem at a query that fails, at a query that answers (the mock's), and at a
  terminal command that fails.
\<close>

theorem ai_failure_handling_witness:
  "suggestedFiles
     (loadSuggestions (AIService_getAISuggestedFiles True unavailable_backend) Sidebar_init)
     = fallback_files \<and>
   console_s
     (loadSuggestions (AIService_getAISuggestedFiles True unavailable_backend) Sidebar_init)
     = [(js ''Failed to load AI suggestions:'', js ''unavailable'')] \<and>
   map name
     (suggestedFiles
        (loadSuggestions (AIService_getAISuggestedFiles False unavailable_backend) Sidebar_init))
     = [js ''Button.tsx''] \<and>
   0 < length (calls (executeCommand 1 (js ''ls'') (Terminal_init 0))) \<and>
   history
     (executeCommand_settle 2 0 (Inl (js ''unavailable'')) (executeCommand 1 (js ''ls'') (Terminal_init 0)))
     = initialHistory 0 @
       [\<lparr> type_l = CommandLine, content = js ''ls'', timestamp = Some 1 \<rparr>,
        \<lparr> type_l = ErrorLine, content = js ''Error executing command: unavailable'',
          timestamp = Some 2 \<rparr>]"
  using ai_failure_handling
      [of "AIService_getAISuggestedFiles True unavailable_backend" "js ''unavailable''" Sidebar_init
          "[]" 0 "executeCommand 1 (js ''ls'') (Terminal_init 0)" 2]
    ai_failure_handling
      [of "AIService_getAISuggestedFiles False unavailable_backend" "js ''unavailable''" Sidebar_init
          "[\<lparr> path = js ''src/components/Button.tsx'', name = js ''Button.tsx'',
              file_type = js ''typescript'', size_f = 2048,
              modified = js ''2024-01-15T10:30:00Z'', ai_relevance = Some 0.95 \<rparr>]"
          0 "executeCommand 1 (js ''ls'') (Terminal_init 0)" 2]
  by (simp add: AIService_getAISuggestedFiles_def TauriAIService_getAISuggestedFiles_def
      MockAIService_getAISuggestedFiles_def unavailable_backend_def Sidebar_init_def
      executeCommand_def trim_def isWhiteSpace_def Terminal_init_def)

subsection \<open>Blank input\<close>

lemma dropWhile_all_iff: "(\<forall>x\<in>set (dropWhile P s). P x) \<longleftrightarrow> (\<forall>x\<in>set s. P x)"
  by (induction s) auto

lemma trim_blank_iff: "trim s = [] \<longleftrightarrow> (\<forall>c\<in>set s. isWhiteSpace c)"
  by (simp add: trim_def dropWhile_eq_Nil_conv dropWhile_all_iff)

lemma split_not_Nil: "split sep s \<noteq> []"
  by (induction s) (auto split: list.splits)

text \<open>
  C8: a command made of white space only (the empty command included) leaves the whole
  state of the terminal as it is, in both versions of \<open>executeCommand\<close>: nothing is
  appended to the history and no call of the AI service and no timer is started. A chat
  input made of white space only leaves the whole state of the sidebar as it is, in both
  versions of \<open>sendMessage\<close>.
\<close>

theorem blank_input_is_noop:
  assumes "\<forall>c\<in>set cmd. isWhiteSpace c" and "\<forall>c\<in>set (chatInput sb). isWhiteSpace c"
  shows "executeCommand now cmd t = t \<and> executeCommand_sim now cmd t = t \<and>
         sendMessage sb = sb \<and> sendMessage_sync sb = sb"
  using assms
  by (simp add: trim_blank_iff executeCommand_def executeCommand_sim_def sendMessage_def
      sendMessage_sync_def)

text \<open>The theorem at the command of a space, a tab and a no-break space, and at a chat input of two spaces.\<close>

theorem blank_input_is_noop_witness:
  "isWhiteSpace 32 \<and> isWhiteSpace 9 \<and> isWhiteSpace 160 \<and>
   executeCommand 7 [32, 9, 160] (Terminal_init 0) = Terminal_init 0 \<and>
   executeCommand_sim 7 [32, 9, 160] (Terminal_init 0) = Terminal_init 0 \<and>
   sendMessage (Sidebar_init\<lparr> chatInput := [32, 32] \<rparr>) = Sidebar_init\<lparr> chatInput := [32, 32] \<rparr> \<and>
   sendMessage_sync (Sidebar_init\<lparr> chatInput := [32, 32] \<rparr>) = Sidebar_init\<lparr> chatInput := [32, 32] \<rparr>"
  using blank_input_is_noop
    [of "[32, 9, 160]" "Sidebar_init\<lparr> chatInput := [32, 32] \<rparr>" 7 "Terminal_init 0"]
  by (simp add: isWhiteSpace_def)

subsection \<open>The terminal's history\<close>

text \<open>
  C9 fails on the code. The command a is entered and rendered, the user types b, the
  answer to a arrives and its output line is appended to the history, and the user
  presses Enter before React has rendered again: \<open>executeCommand\<close> sets the history to
  the one the last render read followed by b, and the output line, which was in the
  history, is gone. The continuation of \<open>executeCommand\<close> and the timer's callback update
  the history from its previous value; the first part of \<open>executeCommand\<close> does not.
\<close>

theorem stale_history_overwrites_output:
  "history
     (terminal_run id
        [Typed (js ''a''), Enter 1, Rendered, Typed (js ''b''), Settled 2 0 (Inr example_response)]
        (Terminal_init 0))
   = initialHistory 0 @
     [\<lparr> type_l = CommandLine, content = js ''a'', timestamp = Some 1 \<rparr>,
      \<lparr> type_l = OutputLine, content = js ''out'', timestamp = Some 2 \<rparr>] \<and>
   history
     (terminal_run id
        [Typed (js ''a''), Enter 1, Rendered, Typed (js ''b''), Settled 2 0 (Inr example_response),
         Enter 3]
        (Terminal_init 0))
   = initialHistory 0 @
     [\<lparr> type_l = CommandLine, content = js ''a'', timestamp = Some 1 \<rparr>,
      \<lparr> type_l = CommandLine, content = js ''b'', timestamp = Some 3 \<rparr>]"
  by (simp add: setCurrentCommand_def executeCommand_def executeCommand_settle_def
      render_terminal_def response_lines_def example_response_def trim_def isWhiteSpace_def
      Terminal_init_def drop_nth_def)

text \<open>
  What every run preserves: the history read by a render is the history read by the
  render before it, followed by new lines.
\<close>

lemma step_rendered:
  "history s = history_rendered s @ ys \<Longrightarrow>
   (\<exists>ys'. history (terminal_step lower e s) = history_rendered (terminal_step lower e s) @ ys') \<and>
   (\<exists>new. history_rendered (terminal_step lower e s) = history_rendered s @ new)"
  by (cases e)
     (auto simp: setCurrentCommand_def render_terminal_def executeCommand_def
        executeCommand_settle_def executeCommand_sim_def executeCommand_sim_timeout_def
        split: sum.splits)

lemma rendered_history_append_only:
  "history s = history_rendered s @ ys \<Longrightarrow>
   (\<exists>ys'. history (terminal_run lower es s) = history_rendered (terminal_run lower es s) @ ys') \<and>
   (\<exists>new. history_rendered (terminal_run lower es s) = history_rendered s @ new)"
proof (induction es arbitrary: s ys)
  case Nil
  then show ?case by simp
next
  case (Cons e es)
  from step_rendered [OF Cons.prems, of lower e]
  obtain y1 n1 where
    p: "history (terminal_step lower e s) = history_rendered (terminal_step lower e s) @ y1"
    and 1: "history_rendered (terminal_step lower e s) = history_rendered s @ n1"
    by blast
  from Cons.IH [OF p]
  obtain y2 n2 where
    q: "history (terminal_run lower es (terminal_step lower e s))
        = history_rendered (terminal_run lower es (terminal_step lower e s)) @ y2"
    and 2: "history_rendered (terminal_run lower es (terminal_step lower e s))
            = history_rendered (terminal_step lower e s) @ n2"
    by blast
  show ?case using q 1 2 by simp
qed

subsection \<open>The mock completion\<close>

text \<open>
  C10: \<open>MockAIService.completeCode\<close> ignores its context: two calls with the same level
  return the same result, whose fields are the fixed id, the requested level, confidence
  0.92, the fixed code text, language and alternatives. Outside Tauri, \<open>AIService\<close> is
  this mock, whatever the backend.
\<close>

theorem MockAIService_completeCode_context_independent:
  "MockAIService_completeCode context1 lvl = MockAIService_completeCode context2 lvl \<and>
   MockAIService_completeCode context1 lvl =
     Inr \<lparr> id_r = js ''1'', level = lvl, confidence = 0.92, code = mock_code,
           language = js ''typescript'',
           alternatives = [js ''Styled components variant'', js ''CSS modules variant''] \<rparr> \<and>
   AIService_completeCode False invoke1 context1 lvl = AIService_completeCode False invoke2 context2 lvl"
  by (simp add: MockAIService_completeCode_def AIService_completeCode_def)

subsection \<open>Nearest-neighbour queries\<close>

lemma sorted_desc_order_by:
  "sorted_wrt (\<lambda>a b. snd b \<le> snd a) (order_by_similarity_desc rows)"
proof -
  have "sorted (map (\<lambda>row. - snd row) (order_by_similarity_desc rows))"
    by (simp add: order_by_similarity_desc_def)
  then show ?thesis by (simp add: sorted_map)
qed

lemma set_order_by: "set (order_by_similarity_desc rows) = set rows"
  by (simp add: order_by_similarity_desc_def)

lemma query_ids: "fst ` set (query sim store q k flt) \<subseteq> id_e ` set store"
proof
  fix b
  assume "b \<in> fst ` set (query sim store q k flt)"
  then obtain r where r: "r \<in> set (query sim store q k flt)" and b: "b = fst r"
    by blast
  from r have
    "r \<in> set (order_by_similarity_desc (map (\<lambda>e. (id_e e, sim (embedding e) q)) (filter flt store)))"
    unfolding query_def by (rule in_set_takeD)
  then have "r \<in> set (map (\<lambda>e. (id_e e, sim (embedding e) q)) (filter flt store))"
    by (simp add: set_order_by)
  then show "b \<in> id_e ` set store"
    using b by auto
qed

text \<open>
  C2: for every similarity function, store, query vector, \<open>k\<close> and filter, the query
  returns at most \<open>k\<close> results, each result's similarity is at least that of every later
  result, every returned id is the id of a live entry, and after \<open>remove\<close> of a block id
  that id is not returned. The SQL query of the documents (threshold 0.6, limit 10)
  returns at most 10 rows in non-increasing similarity.
\<close>

theorem query_bounded_sorted_live:
  "length (query sim store q k flt) \<le> k \<and>
   sorted_wrt (\<lambda>a b. snd b \<le> snd a) (query sim store q k flt) \<and>
   fst ` set (query sim store q k flt) \<subseteq> id_e ` set store \<and>
   blockId \<notin> fst ` set (query sim (remove blockId store) q k flt) \<and>
   length (core_embedding_query sim store q) \<le> 10 \<and>
   sorted_wrt (\<lambda>a b. snd b \<le> snd a) (core_embedding_query sim store q)"
proof -
  have 1: "length (query sim store q k flt) \<le> k"
    by (simp add: query_def)
  have 2: "sorted_wrt (\<lambda>a b. snd b \<le> snd a) (query sim store q k flt)"
    unfolding query_def by (rule sorted_wrt_take) (rule sorted_desc_order_by)
  have 3: "fst ` set (query sim store q k flt) \<subseteq> id_e ` set store"
    by (rule query_ids)
  have "fst ` set (query sim (remove blockId store) q k flt) \<subseteq> id_e ` set (remove blockId store)"
    by (rule query_ids)
  moreover have "blockId \<notin> id_e ` set (remove blockId store)"
    by (auto simp: remove_def)
  ultimately have 4: "blockId \<notin> fst ` set (query sim (remove blockId store) q k flt)"
    by blast
  have 5: "length (core_embedding_query sim store q) \<le> 10"
    by (simp add: core_embedding_query_def)
  have 6: "sorted_wrt (\<lambda>a b. snd b \<le> snd a) (core_embedding_query sim store q)"
    unfolding core_embedding_query_def by (rule sorted_wrt_take) (rule sorted_desc_order_by)
  show ?thesis
    using 1 2 3 4 5 6 by simp
qed

lemma example_store_rows:
  "example_store =
     [example_row ''a'' ''app.tsx'' [0.7, 0], example_row ''b'' ''util.ts'' [0.2, 0.3],
      example_row ''c'' ''app.tsx'' [0.9, 0.1]]"
  by (simp add: example_store_def upsert_def remove_def example_row_def)

text \<open>
  The theorem at the example store, queried for the two nearest neighbours of (1, 0)
  before and after block c is removed.
\<close>

theorem query_bounded_sorted_live_witness:
  "query dot example_store [1, 0] 2 no_filter = [(js ''c'', 0.9), (js ''a'', 0.7)] \<and>
   query dot (remove (js ''c'') example_store) [1, 0] 2 no_filter = [(js ''a'', 0.7), (js ''b'', 0.2)] \<and>
   map snd (core_embedding_query dot example_store [1, 0]) = [0.9, 0.7]"
  using query_bounded_sorted_live [of dot example_store "[1, 0]" 2 no_filter "js ''c''"]
  by (simp add: example_store_rows query_def core_embedding_query_def remove_def
      order_by_similarity_desc_def dot_def no_filter_def example_row_def)

subsection \<open>Re-indexing a file\<close>

lemma indexFile_index_all:
  "indexFile ix p text st = index_all (map (block_entry ix p) (parse ix p text)) st"
  by (simp add: indexFile_def index_all_def foldl_map)

lemma index_all_Nil: "index_all [] st = st"
  by (simp add: index_all_def)

lemma index_all_Cons: "index_all (e # es) st = index_all es (upsert e st)"
  by (simp add: index_all_def)

lemma removeFile_index_all:
  "\<forall>e\<in>set es. file_path e = p \<Longrightarrow>
   removeFileFromIndex p (index_all es st) =
     filter (\<lambda>x. id_e x \<notin> id_e ` set es) (removeFileFromIndex p st)"
proof (induction es arbitrary: st)
  case Nil
  show ?case by (simp add: index_all_Nil)
next
  case (Cons e es)
  have "removeFileFromIndex p (upsert e st) = remove (id_e e) (removeFileFromIndex p st)"
    using Cons.prems
    by (auto simp: upsert_def removeFileFromIndex_def remove_def intro: filter_cong)
  with Cons show ?case
    by (auto simp: index_all_Cons remove_def intro: filter_cong)
qed

lemma index_all_filter:
  "index_all es (filter (\<lambda>x. id_e x \<notin> id_e ` set es) st) = index_all es st"
proof (induction es arbitrary: st)
  case Nil
  show ?case by (simp add: index_all_Nil)
next
  case (Cons e es)
  have "index_all es (upsert e (filter (\<lambda>x. id_e x \<notin> id_e ` set (e # es)) st))
        = index_all es (filter (\<lambda>x. id_e x \<notin> id_e ` set es)
            (upsert e (filter (\<lambda>x. id_e x \<notin> id_e ` set (e # es)) st)))"
    by (simp add: Cons.IH)
  also have "filter (\<lambda>x. id_e x \<notin> id_e ` set es)
               (upsert e (filter (\<lambda>x. id_e x \<notin> id_e ` set (e # es)) st))
        = filter (\<lambda>x. id_e x \<notin> id_e ` set es) (upsert e st)"
    by (auto simp: upsert_def remove_def intro: filter_cong)
  also have "index_all es \<dots> = index_all es (upsert e st)"
    by (simp add: Cons.IH)
  finally show ?case by (simp add: index_all_Cons)
qed

lemma removeFile_idem:
  "removeFileFromIndex p (removeFileFromIndex p st) = removeFileFromIndex p st"
  by (simp add: removeFileFromIndex_def)

lemma updateIndex_idem:
  "updateIndex ix p text (updateIndex ix p text st) = updateIndex ix p text st"
proof -
  let ?es = "map (block_entry ix p) (parse ix p text)"
  have fp: "\<forall>e\<in>set ?es. file_path e = p"
    by (simp add: block_entry_def)
  have "updateIndex ix p text (updateIndex ix p text st)
        = index_all ?es (removeFileFromIndex p (index_all ?es (removeFileFromIndex p st)))"
    by (simp add: updateIndex_def indexFile_index_all)
  also have "\<dots> = index_all ?es
                     (filter (\<lambda>x. id_e x \<notin> id_e ` set ?es) (removeFileFromIndex p st))"
    by (simp only: removeFile_index_all [OF fp] removeFile_idem)
  also have "\<dots> = index_all ?es (removeFileFromIndex p st)"
    by (rule index_all_filter)
  finally show ?thesis
    by (simp add: updateIndex_def indexFile_index_all)
qed

lemma distinct_upsert: "distinct (map id_e st) \<Longrightarrow> distinct (map id_e (upsert e st))"
  by (auto simp: upsert_def remove_def distinct_map_filter)

lemma distinct_index_all: "distinct (map id_e st) \<Longrightarrow> distinct (map id_e (index_all es st))"
  by (induction es arbitrary: st) (simp_all add: index_all_Nil index_all_Cons distinct_upsert)

lemma distinct_updateIndex:
  "distinct (map id_e st) \<Longrightarrow> distinct (map id_e (updateIndex ix p text st))"
  by (simp add: updateIndex_def indexFile_index_all distinct_index_all removeFileFromIndex_def
      distinct_map_filter)

text \<open>
  C7: re-indexing a file whose content is unchanged leaves the index as the first
  indexing left it: the same entries, with the same ids, blocks and embeddings, in the
  same order. If no two entries of the index share a block id before a re-indexing, none
  do after it.
\<close>

theorem reindex_unchanged_file_idempotent:
  "updateIndex ix p text (updateIndex ix p text store) = updateIndex ix p text store \<and>
   (distinct (map id_e store) \<longrightarrow>
      distinct (map id_e (updateIndex ix p text store)) \<and>
      distinct (map id_e (updateIndex ix p text (updateIndex ix p text store))))"
  by (simp add: updateIndex_idem distinct_updateIndex)

text \<open>
  The theorem at the example store and indexer: re-indexing app.tsx replaces its two old
  entries by the two blocks the parser finds, and a second pass changes nothing.
\<close>

theorem reindex_unchanged_file_idempotent_witness:
  "distinct (map id_e example_store) \<and>
   map id_e (updateIndex example_indexer (js ''app.tsx'') (js ''x'') example_store)
     = [js ''b'', js ''app.tsx:f'', js ''app.tsx:C''] \<and>
   updateIndex example_indexer (js ''app.tsx'') (js ''x'')
     (updateIndex example_indexer (js ''app.tsx'') (js ''x'') example_store)
     = updateIndex example_indexer (js ''app.tsx'') (js ''x'') example_store \<and>
   distinct (map id_e (updateIndex example_indexer (js ''app.tsx'') (js ''x'') example_store))"
  using reindex_unchanged_file_idempotent
    [of example_indexer "js ''app.tsx''" "js ''x''" example_store]
  by (simp add: example_store_rows example_row_def updateIndex_def indexFile_def
      removeFileFromIndex_def upsert_def remove_def example_indexer_def example_blocks_def
      block_entry_def)

end
